theory Spec2Isabelle
  imports Complex_Main "HOL-Library.Sublist" "HOL-Library.AList"
begin

section \<open>Python values\<close>

text \<open>
  A Python \<^verbatim>\<open>str\<close> is a sequence of Unicode code points, so slicing and padding count
  code points. ASCII literals of the source are written \<open>ascii ''...''\<close>, the Cyrillic
  ones as their code points.
  A Python \<^verbatim>\<open>float\<close> is modelled by the rational number it denotes (NaN and the
  infinities are left out), a Python \<^verbatim>\<open>int\<close> by \<open>int\<close>. The true division of an
  \<^verbatim>\<open>int\<close> by a power of two is exact below \<open>2 ^ 53\<close>, and is modelled as exact.
\<close>

type_synonym pystr = "nat list"

definition ascii :: "string \<Rightarrow> pystr" where
  "ascii s = map of_char s"

text \<open>The exceptions the program can meet. \<open>ZombieProcess\<close> is a subclass of
  \<open>NoSuchProcess\<close>; \<open>PermissionError\<close>, \<open>FileNotFoundError\<close> and \<open>gaierror\<close> are subclasses
  of \<open>OSError\<close>.\<close>

datatype error =
    AttributeError
  | TypeError
  | KeyError
  | OSError
  | PermissionError
  | FileNotFoundError
  | gaierror
  | NoSuchProcess
  | ZombieProcess
  | AccessDenied
  | RuntimeError

definition is_OSError :: "error \<Rightarrow> bool" where
  "is_OSError e = (e = OSError \<or> e = PermissionError \<or> e = FileNotFoundError \<or> e = gaierror)"

definition is_NoSuchProcess :: "error \<Rightarrow> bool" where
  "is_NoSuchProcess e = (e = NoSuchProcess \<or> e = ZombieProcess)"

definition bind_err :: "error + 'a \<Rightarrow> ('a \<Rightarrow> error + 'b) \<Rightarrow> error + 'b" where
  "bind_err r f = (case r of Inl e \<Rightarrow> Inl e | Inr x \<Rightarrow> f x)"

subsection \<open>Conversion to text\<close>

fun str_nat :: "nat \<Rightarrow> pystr" where
  "str_nat n = (if n < 10 then [48 + n] else str_nat (n div 10) @ [48 + n mod 10])"

declare str_nat.simps [simp del]

definition str_int :: "int \<Rightarrow> pystr" where
  "str_int i = (if i < 0 then ascii ''-'' @ str_nat (nat (- i)) else str_nat (nat i))"

text \<open>\<^verbatim>\<open>str\<close> of a value that may be \<^verbatim>\<open>None\<close>.\<close>

definition str_opt_int :: "int option \<Rightarrow> pystr" where
  "str_opt_int v = (case v of None \<Rightarrow> ascii ''None'' | Some i \<Rightarrow> str_int i)"

definition str_opt :: "pystr option \<Rightarrow> pystr" where
  "str_opt v = (case v of None \<Rightarrow> ascii ''None'' | Some s \<Rightarrow> s)"

text \<open>Padding of the format specifications: right-aligned numbers (\<^verbatim>\<open>:6\<close>, \<^verbatim>\<open>:5.1f\<close>),
  left-aligned strings (\<^verbatim>\<open>:20\<close>), zero-filled fields of \<^verbatim>\<open>strftime\<close>.\<close>

definition rjust :: "nat \<Rightarrow> pystr \<Rightarrow> pystr" where
  "rjust w s = replicate (w - length s) 32 @ s"

definition ljust :: "nat \<Rightarrow> pystr \<Rightarrow> pystr" where
  "ljust w s = s @ replicate (w - length s) 32"

definition zfill :: "nat \<Rightarrow> pystr \<Rightarrow> pystr" where
  "zfill w s = replicate (w - length s) 48 @ s"

text \<open>The format specification \<^verbatim>\<open>.pf\<close>: the value rounded to \<open>p\<close> decimals, a tie
  going to the even digit, with the sign of the value.\<close>

definition round_half_even :: "rat \<Rightarrow> int" where
  "round_half_even q =
     (let f = \<lfloor>q\<rfloor>; d = q - of_int f
      in if d < 1 / 2 then f else if 1 / 2 < d then f + 1 else if even f then f else f + 1)"

definition format_f :: "nat \<Rightarrow> rat \<Rightarrow> pystr" where
  "format_f p q =
     (let n = nat (round_half_even (\<bar>q\<bar> * 10 ^ p));
          sign = (if q < 0 then ascii ''-'' else [])
      in sign @ str_nat (n div 10 ^ p) @
         (if p = 0 then [] else ascii ''.'' @ zfill p (str_nat (n mod 10 ^ p))))"

text \<open>\<^verbatim>\<open>sep.join(xs)\<close>.\<close>

fun join :: "pystr \<Rightarrow> pystr list \<Rightarrow> pystr" where
  "join sep [] = []"
| "join sep [x] = x"
| "join sep (x # y # ys) = x @ sep @ join sep (y # ys)"

subsection \<open>Dates\<close>

record datetime =
  year :: nat
  month :: nat
  day :: nat
  hour :: nat
  minute :: nat
  second :: nat

text \<open>\<^verbatim>\<open>strftime("%H:%M:%S")\<close>, \<^verbatim>\<open>strftime("%Y-%m-%d %H:%M:%S")\<close> and
  \<^verbatim>\<open>strftime('%Y%m%d_%H%M%S')\<close>.\<close>

definition strftime_HMS :: "datetime \<Rightarrow> pystr" where
  "strftime_HMS d =
     zfill 2 (str_nat (hour d)) @ ascii '':'' @ zfill 2 (str_nat (minute d)) @ ascii '':'' @
     zfill 2 (str_nat (second d))"

definition strftime_Ymd_HMS :: "datetime \<Rightarrow> pystr" where
  "strftime_Ymd_HMS d =
     zfill 4 (str_nat (year d)) @ ascii ''-'' @ zfill 2 (str_nat (month d)) @ ascii ''-'' @
     zfill 2 (str_nat (day d)) @ ascii '' '' @ strftime_HMS d"

definition strftime_file :: "datetime \<Rightarrow> pystr" where
  "strftime_file d =
     zfill 4 (str_nat (year d)) @ zfill 2 (str_nat (month d)) @ zfill 2 (str_nat (day d)) @
     ascii ''_'' @ zfill 2 (str_nat (hour d)) @ zfill 2 (str_nat (minute d)) @
     zfill 2 (str_nat (second d))"

section \<open>The operating system\<close>

text \<open>
  What \<^verbatim>\<open>platform\<close>, \<^verbatim>\<open>socket\<close>, \<^verbatim>\<open>psutil\<close> and the clock answer during one run. A query
  that the program guards with \<^verbatim>\<open>try\<close>, or that the design names as fallible, answers with
  an exception or a value. The psutil tuples keep their field names, prefixed where two of
  them share one.
\<close>

record scpufreq =
  freq_current :: rat

record svmem =
  vm_total :: int
  vm_used :: int
  vm_percent :: rat

record sswap =
  sw_used :: int
  sw_total :: int

record sdiskpart =
  part_device :: pystr
  part_mountpoint :: pystr
  part_fstype :: pystr

record sdiskusage =
  du_total :: int
  du_used :: int
  du_free :: int
  du_percent :: rat

record sdiskio =
  io_read_bytes :: int
  io_write_bytes :: int

record snetio =
  nio_bytes_sent :: int
  nio_bytes_recv :: int
  nio_packets_sent :: int
  nio_packets_recv :: int

datatype address_family = AF_INET | AF_INET6 | AF_LINK | AF_OTHER

record snicaddr =
  family :: address_family
  address :: pystr
  netmask :: "pystr option"

record snicstats =
  isup :: bool
  nic_speed :: int
  nic_mtu :: int

record suser =
  su_name :: pystr
  su_host :: "pystr option"
  su_started :: rat

record shwtemp =
  label :: pystr
  current :: rat
  high :: "rat option"
  critical :: "rat option"

text \<open>
  \<^verbatim>\<open>p.info\<close> of \<^verbatim>\<open>process_iter(['pid', 'name', 'cpu_percent', 'memory_percent'])\<close>: the four
  keys are always present; psutil stores \<^verbatim>\<open>None\<close> for an attribute it was denied.
\<close>

record pinfo =
  pid :: int
  name :: "pystr option"
  cpu_percent :: "rat option"
  memory_percent :: "rat option"

record os =
  platform_system :: pystr
  platform_release :: pystr
  platform_version :: pystr
  gethostname :: pystr
  gethostbyname :: "pystr \<Rightarrow> error + pystr"
  cpu_freq :: "scpufreq option"
  cpu_count :: "bool \<Rightarrow> int option"
  cpu_percent_total :: rat
  cpu_percent_percpu :: "rat list"
  virtual_memory :: svmem
  swap_memory :: sswap
  disk_partitions :: "sdiskpart list"
  disk_usage :: "pystr \<Rightarrow> error + sdiskusage"
  disk_io_counters :: "error + (pystr \<Rightarrow> sdiskio option)"
  net_io_counters :: snetio
  net_if_addrs :: "(pystr \<times> snicaddr list) list"
  net_if_stats :: "pystr \<Rightarrow> snicstats option"
  process_iter :: "pinfo list"
  memory_info_rss :: "int \<Rightarrow> error + int"
  psutil_users :: "suser list"
  boot_time :: rat
  sensors_temperatures :: "error + (pystr \<times> shwtemp list) list"
  fromtimestamp :: "rat \<Rightarrow> datetime"
  now_init :: datetime
  now_save :: datetime
  open_w :: "pystr \<Rightarrow> error option"

section \<open>The snapshot\<close>

text \<open>
  \<^verbatim>\<open>self.info\<close>: a dictionary with fixed keys is a record with the keys as fields.
  The keys \<^verbatim>\<open>name\<close> and \<^verbatim>\<open>host\<close> of a user entry are the fields \<open>user_name\<close> and
  \<open>user_host\<close>. The keys \<^verbatim>\<open>read_bytes\<close> and \<^verbatim>\<open>write_bytes\<close> of a disk entry are set
  together or not at all: the field \<open>io_bytes\<close> holds both. \<^verbatim>\<open>stats\<close> is the empty
  dictionary (\<open>None\<close>) or has its three keys. A dictionary with computed keys is an
  association list in insertion order.
\<close>

record platform_info =
  system :: pystr
  release :: pystr
  version :: pystr
  host :: pystr
  ip :: pystr

record cpu_info =
  physical_cores :: "int option"
  logical_cores :: "int option"
  freq :: pystr
  usage :: rat
  per_cpu :: "rat list"

record memory_info =
  total_ram :: pystr
  used_ram :: pystr
  ram_percent :: rat
  swap :: pystr

record disk_info =
  device :: pystr
  mountpoint :: pystr
  fstype :: pystr
  total :: pystr
  used :: pystr
  free :: pystr
  percent :: rat
  io_bytes :: "(pystr \<times> pystr) option"

record stats_info =
  is_up :: pystr
  speed :: pystr
  mtu :: int

record interface_info =
  ip_addresses :: "pystr list"
  mac :: "pystr option"
  stats :: "stats_info option"

record network_info =
  bytes_sent :: pystr
  bytes_recv :: pystr
  packets_sent :: int
  packets_recv :: int
  interfaces :: "(pystr \<times> interface_info) list"

record proc = pinfo +
  memory_mb :: rat

record user_info =
  user_name :: pystr
  user_host :: "pystr option"
  started :: pystr

datatype sensor_value = Info pystr | Readings "(pystr \<times> rat) list list"

record snapshot =
  time :: pystr
  platform :: platform_info
  cpu :: cpu_info
  memory :: memory_info
  disks :: "disk_info list"
  network :: network_info
  processes :: "proc list"
  users :: "user_info list"
  boot :: pystr
  sensors :: "(pystr \<times> sensor_value) list"

text \<open>The object: \<^verbatim>\<open>self.fmt\<close>, \<^verbatim>\<open>self.info\<close> (the empty dictionary until \<^verbatim>\<open>collect\<close>
  has run) and \<^verbatim>\<open>self.time\<close>.\<close>

record SystemReport =
  fmt :: pystr
  info :: "snapshot option"
  self_time :: pystr

definition SystemReport_init :: "pystr \<Rightarrow> os \<Rightarrow> SystemReport" where
  "SystemReport_init f os = \<lparr>fmt = f, info = None, self_time = strftime_Ymd_HMS (now_init os)\<rparr>"

section \<open>The collectors\<close>

definition SystemReport_platform :: "os \<Rightarrow> error + platform_info" where
  "SystemReport_platform os =
     bind_err (gethostbyname os (gethostname os)) (\<lambda>addr.
       Inr \<lparr>system = platform_system os, release = platform_release os,
            version = platform_version os, host = gethostname os, ip = addr\<rparr>)"

definition SystemReport_cpu :: "os \<Rightarrow> cpu_info" where
  "SystemReport_cpu os =
     (let f = cpu_freq os
      in \<lparr>physical_cores = cpu_count os False,
          logical_cores = cpu_count os True,
          freq = (case f of Some c \<Rightarrow> format_f 0 (freq_current c) @ ascii '' MHz''
                  | None \<Rightarrow> ascii ''N/A''),
          usage = cpu_percent_total os,
          per_cpu = cpu_percent_percpu os\<rparr>)"

definition SystemReport_memory :: "os \<Rightarrow> memory_info" where
  "SystemReport_memory os =
     (let vmem = virtual_memory os; sw = swap_memory os
      in \<lparr>total_ram = format_f 1 (of_int (vm_total vmem) / 1024 ^ 3) @ ascii '' GB'',
          used_ram = format_f 1 (of_int (vm_used vmem) / 1024 ^ 3) @ ascii '' GB'',
          ram_percent = vm_percent vmem,
          swap = format_f 1 (of_int (sw_used sw) / 1024 ^ 3) @ ascii ''/'' @
                 format_f 1 (of_int (sw_total sw) / 1024 ^ 3) @ ascii '' GB''\<rparr>)"

text \<open>The key of the I/O counters: the device name with every backslash (92) and every
  slash (47) removed.\<close>

definition io_key :: "pystr \<Rightarrow> pystr" where
  "io_key dev = filter (\<lambda>c. c \<noteq> 47) (filter (\<lambda>c. c \<noteq> 92) dev)"

text \<open>The inner \<^verbatim>\<open>try\<close> of the disk collector: any exception of the counter query is
  swallowed, and a device without counters gets no I/O keys.\<close>

definition disk_io_bytes :: "os \<Rightarrow> sdiskpart \<Rightarrow> (pystr \<times> pystr) option" where
  "disk_io_bytes os part =
     (case disk_io_counters os of
        Inl e \<Rightarrow> None
      | Inr counters \<Rightarrow>
          (case counters (io_key (part_device part)) of
             None \<Rightarrow> None
           | Some io \<Rightarrow>
               Some (format_f 1 (of_int (io_read_bytes io) / 1024 ^ 2) @ ascii '' MB'',
                     format_f 1 (of_int (io_write_bytes io) / 1024 ^ 2) @ ascii '' MB'')))"

text \<open>The dictionary \<^verbatim>\<open>disk_info\<close> of one partition whose usage was read.\<close>

definition disk_entry :: "os \<Rightarrow> sdiskpart \<Rightarrow> sdiskusage \<Rightarrow> disk_info" where
  "disk_entry os part use =
     \<lparr>device = part_device part,
      mountpoint = part_mountpoint part,
      fstype = part_fstype part,
      total = format_f 1 (of_int (du_total use) / 1024 ^ 3) @ ascii '' GB'',
      used = format_f 1 (of_int (du_used use) / 1024 ^ 3) @ ascii '' GB'',
      free = format_f 1 (of_int (du_free use) / 1024 ^ 3) @ ascii '' GB'',
      percent = du_percent use,
      io_bytes = disk_io_bytes os part\<rparr>"

text \<open>The loop of \<^verbatim>\<open>_disks\<close>. \<^verbatim>\<open>except (PermissionError, OSError): continue\<close> skips the
  partition; an exception of another class leaves the collector.\<close>

fun disks_loop :: "os \<Rightarrow> sdiskpart list \<Rightarrow> disk_info list \<Rightarrow> error + disk_info list" where
  "disks_loop os [] ds = Inr ds"
| "disks_loop os (part # parts) ds =
     (case disk_usage os (part_mountpoint part) of
        Inr use \<Rightarrow> disks_loop os parts (ds @ [disk_entry os part use])
      | Inl e \<Rightarrow>
          if e = PermissionError \<or> is_OSError e then disks_loop os parts ds
          else Inl e)"

definition SystemReport_disks :: "os \<Rightarrow> error + disk_info list" where
  "SystemReport_disks os = disks_loop os (disk_partitions os) []"

text \<open>The inner loop of \<^verbatim>\<open>_network\<close> over the addresses of one interface.\<close>

fun addrs_loop :: "snicaddr list \<Rightarrow> pystr list \<Rightarrow> pystr option \<Rightarrow> pystr list \<times> pystr option" where
  "addrs_loop [] ip_list mac_address = (ip_list, mac_address)"
| "addrs_loop (addr # addrs) ip_list mac_address =
     (if family addr = AF_INET then
        addrs_loop addrs
          (ip_list @ [ascii ''IPv4: '' @ address addr @ ascii ''/'' @ str_opt (netmask addr)])
          mac_address
      else if family addr = AF_INET6 then
        addrs_loop addrs (ip_list @ [ascii ''IPv6: '' @ address addr]) mac_address
      else if family addr = AF_LINK then
        addrs_loop addrs ip_list (Some (address addr))
      else addrs_loop addrs ip_list mac_address)"

definition interface_stats :: "os \<Rightarrow> pystr \<Rightarrow> stats_info option" where
  "interface_stats os iface =
     (case net_if_stats os iface of
        None \<Rightarrow> None
      | Some stat \<Rightarrow>
          Some \<lparr>is_up = (if isup stat then ascii ''UP'' else ascii ''DOWN''),
                speed = (if 0 < nic_speed stat then str_int (nic_speed stat) @ ascii '' Mbps''
                         else ascii ''N/A''),
                mtu = nic_mtu stat\<rparr>)"

fun interfaces_loop ::
  "os \<Rightarrow> (pystr \<times> snicaddr list) list \<Rightarrow> (pystr \<times> interface_info) list \<Rightarrow>
   (pystr \<times> interface_info) list" where
  "interfaces_loop os [] ifs = ifs"
| "interfaces_loop os ((iface, addrs) # rest) ifs =
     (let (ip_list, mac_address) = addrs_loop addrs [] None
      in interfaces_loop os rest
           (AList.update iface
              \<lparr>ip_addresses = ip_list, mac = mac_address, stats = interface_stats os iface\<rparr>
              ifs))"

definition SystemReport_network :: "os \<Rightarrow> network_info" where
  "SystemReport_network os =
     (let io = net_io_counters os
      in \<lparr>bytes_sent = format_f 1 (of_int (nio_bytes_sent io) / 1024 ^ 2) @ ascii '' MB'',
          bytes_recv = format_f 1 (of_int (nio_bytes_recv io) / 1024 ^ 2) @ ascii '' MB'',
          packets_sent = nio_packets_sent io,
          packets_recv = nio_packets_recv io,
          interfaces = interfaces_loop os (net_if_addrs os) []\<rparr>)"

text \<open>The process collector adds the key \<^verbatim>\<open>memory_mb\<close> to \<^verbatim>\<open>p.info\<close>.\<close>

definition info_of :: "proc \<Rightarrow> pinfo" where
  "info_of x = \<lparr>pid = pid x, name = name x, cpu_percent = cpu_percent x,
     memory_percent = memory_percent x\<rparr>"

definition add_memory_mb :: "pinfo \<Rightarrow> rat \<Rightarrow> proc" where
  "add_memory_mb p mb = \<lparr>pid = pid p, name = name p, cpu_percent = cpu_percent p,
     memory_percent = memory_percent p, memory_mb = mb\<rparr>"

text \<open>The loop of \<^verbatim>\<open>_processes\<close>: a process whose lookup raises \<^verbatim>\<open>NoSuchProcess\<close> or
  \<^verbatim>\<open>AccessDenied\<close> is skipped, any other exception leaves the collector.\<close>

fun processes_loop :: "(int \<Rightarrow> error + int) \<Rightarrow> pinfo list \<Rightarrow> proc list \<Rightarrow> error + proc list" where
  "processes_loop rss [] procs = Inr procs"
| "processes_loop rss (p # ps) procs =
     (case rss (pid p) of
        Inr r \<Rightarrow> processes_loop rss ps (procs @ [add_memory_mb p (of_int r / 1024 ^ 2)])
      | Inl e \<Rightarrow>
          if is_NoSuchProcess e \<or> e = AccessDenied then processes_loop rss ps procs
          else Inl e)"

text \<open>
  \<^verbatim>\<open>procs.sort(key=lambda x: x.get('memory_percent', 0), reverse=True)\<close>. The key
  \<^verbatim>\<open>memory_percent\<close> is present in every \<^verbatim>\<open>info\<close>, so the default is never taken and the sort
  key is the stored value. A list of fewer than two entries is never compared. In a longer
  list every key is compared at least once, and comparing \<^verbatim>\<open>None\<close> raises \<^verbatim>\<open>TypeError\<close>.
  Otherwise the sort is the stable descending one: entries with equal keys keep their order.
\<close>

definition mem_key :: "proc \<Rightarrow> rat" where
  "mem_key x = (case memory_percent x of Some m \<Rightarrow> m | None \<Rightarrow> 0)"

definition sort_by_memory :: "proc list \<Rightarrow> error + proc list" where
  "sort_by_memory procs =
     (if length procs < 2 then Inr procs
      else if list_ex (\<lambda>x. memory_percent x = None) procs then Inl TypeError
      else Inr (sort_key (\<lambda>x. - mem_key x) procs))"

definition SystemReport_processes :: "os \<Rightarrow> error + proc list" where
  "SystemReport_processes os =
     bind_err (processes_loop (memory_info_rss os) (process_iter os) []) (\<lambda>procs.
     bind_err (sort_by_memory procs) (\<lambda>sorted_procs.
       Inr (take 8 sorted_procs)))"

fun users_loop :: "os \<Rightarrow> suser list \<Rightarrow> user_info list \<Rightarrow> user_info list" where
  "users_loop os [] us = us"
| "users_loop os (user # rest) us =
     users_loop os rest (us @
       [\<lparr>user_name = su_name user, user_host = su_host user,
         started = strftime_HMS (fromtimestamp os (su_started user))\<rparr>])"

definition SystemReport_users :: "os \<Rightarrow> user_info list" where
  "SystemReport_users os = users_loop os (psutil_users os) []"

definition SystemReport_boot :: "os \<Rightarrow> pystr" where
  "SystemReport_boot os = strftime_Ymd_HMS (fromtimestamp os (boot_time os))"

text \<open>The loop of \<^verbatim>\<open>_sensors\<close>: \<^verbatim>\<open>sensors[name] = [{"current": entry.current} for entry in
  entries[:2]]\<close>.\<close>

fun sensors_loop ::
  "(pystr \<times> shwtemp list) list \<Rightarrow> (pystr \<times> sensor_value) list \<Rightarrow> (pystr \<times> sensor_value) list" where
  "sensors_loop [] sens = sens"
| "sensors_loop ((nm, entries) # rest) sens =
     sensors_loop rest
       (AList.update nm
          (Readings (map (\<lambda>entry. [(ascii ''current'', current entry)]) (take 2 entries)))
          sens)"

text \<open>\<^verbatim>\<open>except AttributeError\<close>: where psutil has no \<^verbatim>\<open>sensors_temperatures\<close>, the
  placeholder; an exception of another class leaves the collector.\<close>

definition SystemReport_sensors :: "os \<Rightarrow> error + (pystr \<times> sensor_value) list" where
  "SystemReport_sensors os =
     (case sensors_temperatures os of
        Inr temps \<Rightarrow> Inr (if temps \<noteq> [] then sensors_loop temps [] else [])
      | Inl e \<Rightarrow>
          if e = AttributeError then Inr [(ascii ''info'', Info (ascii ''N/A''))]
          else Inl e)"

text \<open>\<^verbatim>\<open>collect\<close>: the dictionary is built key by key, so the first exception of a
  collector leaves it; on success the object holds the snapshot.\<close>

definition collect_info :: "SystemReport \<Rightarrow> os \<Rightarrow> error + snapshot" where
  "collect_info self os =
     bind_err (SystemReport_platform os) (\<lambda>pl.
     bind_err (SystemReport_disks os) (\<lambda>ds.
     bind_err (SystemReport_processes os) (\<lambda>ps.
     bind_err (SystemReport_sensors os) (\<lambda>sens.
       Inr \<lparr>time = self_time self,
            platform = pl,
            cpu = SystemReport_cpu os,
            memory = SystemReport_memory os,
            disks = ds,
            network = SystemReport_network os,
            processes = ps,
            users = SystemReport_users os,
            boot = SystemReport_boot os,
            sensors = sens\<rparr>))))"

definition SystemReport_collect :: "SystemReport \<Rightarrow> os \<Rightarrow> error + SystemReport" where
  "SystemReport_collect self os =
     bind_err (collect_info self os) (\<lambda>i. Inr (self\<lparr>info := Some i\<rparr>))"

section \<open>The text renderer\<close>

text \<open>
  \<^verbatim>\<open>str\<close> of a \<^verbatim>\<open>float\<close> (its shortest representation that reads back) is a function of
  the value that the renderers take as the parameter \<open>repr\<close>; the format specifications
  \<^verbatim>\<open>.1f\<close> and \<^verbatim>\<open>.0f\<close> are computed. The Cyrillic literals are given by their code points;
  each is named after what it says.
\<close>

definition hr60 :: pystr where
  "hr60 = replicate 60 61"

definition hr40 :: pystr where
  "hr40 = replicate 40 45"

definition lit_title :: pystr where
  "lit_title = ([1057, 1048, 1057, 1058, 1045, 1052, 1053, 1067, 1049] @ ascii '' '' @ [1054, 1058, 1063, 1045, 1058] @ ascii '' - '')"

definition lit_platform_header :: pystr where
  "lit_platform_header = ([10, 1055, 1051, 1040, 1058, 1060, 1054, 1056, 1052, 1040] @ ascii '':'')"

definition lit_system :: pystr where
  "lit_system = ([1057, 1080, 1089, 1090, 1077, 1084, 1072] @ ascii '': '')"

definition lit_version :: pystr where
  "lit_version = ([1042, 1077, 1088, 1089, 1080, 1103] @ ascii '': '')"

definition lit_host :: pystr where
  "lit_host = ([1061, 1086, 1089, 1090] @ ascii '': '')"

definition lit_ip :: pystr where
  "lit_ip = (ascii ''IP-'' @ [1072, 1076, 1088, 1077, 1089] @ ascii '': '')"

definition lit_cpu_header :: pystr where
  "lit_cpu_header = ([10, 1055, 1056, 1054, 1062, 1045, 1057, 1057, 1054, 1056] @ ascii '':'')"

definition lit_cores :: pystr where
  "lit_cores = ([1071, 1076, 1088, 1072] @ ascii '': '')"

definition lit_physical :: pystr where
  "lit_physical = (ascii '' '' @ [1092, 1080, 1079, 1080, 1095, 1077, 1089, 1082, 1080, 1093] @ ascii '', '')"

definition lit_logical :: pystr where
  "lit_logical = (ascii '' '' @ [1083, 1086, 1075, 1080, 1095, 1077, 1089, 1082, 1080, 1093])"

definition lit_frequency :: pystr where
  "lit_frequency = ([1063, 1072, 1089, 1090, 1086, 1090, 1072] @ ascii '': '')"

definition lit_load :: pystr where
  "lit_load = ([1047, 1072, 1075, 1088, 1091, 1079, 1082, 1072] @ ascii '': '')"

definition lit_per_core :: pystr where
  "lit_per_core = ([1055, 1086] @ ascii '' '' @ [1103, 1076, 1088, 1072, 1084] @ ascii '': '')"

definition lit_memory_header :: pystr where
  "lit_memory_header = ([10, 1055, 1040, 1052, 1071, 1058, 1068] @ ascii '':'')"

definition lit_ram :: pystr where
  "lit_ram = ([1054, 1047, 1059] @ ascii '': '')"

definition lit_disks_header :: pystr where
  "lit_disks_header = ([10, 1044, 1048, 1057, 1050, 1054, 1042, 1067, 1045] @ ascii '' '' @ [1053, 1040, 1050, 1054, 1055, 1048, 1058, 1045, 1051, 1048] @ ascii '':'')"

definition lit_arrow :: pystr where
  "lit_arrow = (ascii '' '' @ [8594] @ ascii '' '')"

definition lit_type :: pystr where
  "lit_type = (ascii ''   '' @ [1058, 1080, 1087] @ ascii '': '')"

definition lit_total :: pystr where
  "lit_total = (ascii '', '' @ [1042, 1089, 1077, 1075, 1086] @ ascii '': '')"

definition lit_used :: pystr where
  "lit_used = (ascii ''   '' @ [1048, 1089, 1087, 1086, 1083, 1100, 1079, 1086, 1074, 1072, 1085, 1086] @ ascii '': '')"

definition lit_free :: pystr where
  "lit_free = (ascii ''%), '' @ [1057, 1074, 1086, 1073, 1086, 1076, 1085, 1086] @ ascii '': '')"

definition lit_read :: pystr where
  "lit_read = (ascii ''   '' @ [1063, 1090, 1077, 1085, 1080, 1077] @ ascii '': '')"

definition lit_written :: pystr where
  "lit_written = (ascii '', '' @ [1047, 1072, 1087, 1080, 1089, 1100] @ ascii '': '')"

definition lit_network_header :: pystr where
  "lit_network_header = ([10, 1057, 1045, 1058, 1045, 1042, 1067, 1045] @ ascii '' '' @ [1048, 1053, 1058, 1045, 1056, 1060, 1045, 1049, 1057, 1067] @ ascii '':'')"

definition lit_sent :: pystr where
  "lit_sent = ([1054, 1090, 1087, 1088, 1072, 1074, 1083, 1077, 1085, 1086] @ ascii '': '')"

definition lit_received :: pystr where
  "lit_received = (ascii '', '' @ [1055, 1086, 1083, 1091, 1095, 1077, 1085, 1086] @ ascii '': '')"

definition lit_packets_sent :: pystr where
  "lit_packets_sent = ([1055, 1072, 1082, 1077, 1090, 1099] @ ascii '': '' @ [1086, 1090, 1087, 1088, 1072, 1074, 1083, 1077, 1085, 1086] @ ascii '' '')"

definition lit_packets_received :: pystr where
  "lit_packets_received = (ascii '', '' @ [1087, 1086, 1083, 1091, 1095, 1077, 1085, 1086] @ ascii '' '')"

definition lit_status :: pystr where
  "lit_status = (ascii ''  '' @ [1057, 1090, 1072, 1090, 1091, 1089] @ ascii '': '')"

definition lit_speed :: pystr where
  "lit_speed = (ascii '', '' @ [1057, 1082, 1086, 1088, 1086, 1089, 1090, 1100] @ ascii '': '')"

definition lit_processes_header :: pystr where
  "lit_processes_header = ([10, 1058, 1054, 1055] @ ascii ''-8 '' @ [1055, 1056, 1054, 1062, 1045, 1057, 1057, 1054, 1042] @ ascii '':'')"

definition lit_users_header :: pystr where
  "lit_users_header = ([10, 1040, 1050, 1058, 1048, 1042, 1053, 1067, 1045] @ ascii '' '' @ [1055, 1054, 1051, 1068, 1047, 1054, 1042, 1040, 1058, 1045, 1051, 1048] @ ascii '':'')"

definition lit_from :: pystr where
  "lit_from = (ascii '' '' @ [1089] @ ascii '' '')"

definition lit_since :: pystr where
  "lit_since = (ascii '' ('' @ [1089] @ ascii '' '')"

definition lit_boot :: pystr where
  "lit_boot = ([10, 1042, 1056, 1045, 1052, 1071] @ ascii '' '' @ [1047, 1040, 1043, 1056, 1059, 1047, 1050, 1048] @ ascii '': '')"

definition lit_saved :: pystr where
  "lit_saved = ([1054, 1090, 1095, 1077, 1090] @ ascii '' '' @ [1089, 1086, 1093, 1088, 1072, 1085, 1077, 1085] @ ascii '': '')"

definition lit_error :: pystr where
  "lit_error = ([1054, 1096, 1080, 1073, 1082, 1072] @ ascii '': '')"

text \<open>The loop over \<^verbatim>\<open>enumerate(self.info['disks'], 1)\<close>.\<close>

fun report_disks :: "(rat \<Rightarrow> pystr) \<Rightarrow> nat \<Rightarrow> disk_info list \<Rightarrow> pystr list \<Rightarrow> pystr list" where
  "report_disks repr i [] report = report"
| "report_disks repr i (disk # rest) report =
     (let disk_lines =
            [str_nat i @ ascii ''. '' @ device disk @ lit_arrow @ mountpoint disk,
             lit_type @ fstype disk @ lit_total @ total disk,
             lit_used @ used disk @ ascii '' ('' @ repr (percent disk) @ lit_free @ free disk];
          disk_lines =
            (case io_bytes disk of
               Some (r, w) \<Rightarrow> disk_lines @ [lit_read @ r @ lit_written @ w]
             | None \<Rightarrow> disk_lines)
      in report_disks repr (i + 1) rest (report @ disk_lines))"

text \<open>The loop over \<^verbatim>\<open>net['interfaces'].items()\<close>. \<^verbatim>\<open>if info['ip_addresses']\<close>,
  \<^verbatim>\<open>if info['mac']\<close> and \<^verbatim>\<open>if info['stats']\<close> test for a non-empty value.\<close>

fun report_interfaces :: "(pystr \<times> interface_info) list \<Rightarrow> pystr list \<Rightarrow> pystr list" where
  "report_interfaces [] report = report"
| "report_interfaces ((iface, ifc) # rest) report =
     (if ip_addresses ifc \<noteq> [] then
        (let report = report @ [[10] @ iface @ ascii '':''];
             report =
               (case mac ifc of
                  Some m \<Rightarrow> if m \<noteq> [] then report @ [ascii ''  MAC: '' @ m] else report
                | None \<Rightarrow> report);
             report = report @ map (\<lambda>a. ascii ''  '' @ a) (take 2 (ip_addresses ifc));
             report =
               (case stats ifc of
                  Some st \<Rightarrow> report @ [lit_status @ is_up st @ lit_speed @ speed st]
                | None \<Rightarrow> report)
         in report_interfaces rest report)
      else report_interfaces rest report)"

text \<open>The loop over \<^verbatim>\<open>enumerate(self.info['processes'], 1)\<close>. Slicing the name or
  formatting a percentage that is \<^verbatim>\<open>None\<close> raises \<^verbatim>\<open>TypeError\<close>.\<close>

fun report_processes :: "nat \<Rightarrow> proc list \<Rightarrow> pystr list \<Rightarrow> error + pystr list" where
  "report_processes i [] report = Inr report"
| "report_processes i (p # rest) report =
     (case name p of
        None \<Rightarrow> Inl TypeError
      | Some nm \<Rightarrow>
          (case cpu_percent p of
             None \<Rightarrow> Inl TypeError
           | Some c \<Rightarrow>
               (case memory_percent p of
                  None \<Rightarrow> Inl TypeError
                | Some m \<Rightarrow>
                    report_processes (i + 1) rest (report @
                      [str_nat i @ ascii ''. '' @ ljust 20 (take 20 nm) @ ascii '' '' @
                       ascii ''PID:'' @ rjust 6 (str_int (pid p)) @ ascii '' '' @
                       ascii ''CPU:'' @ rjust 5 (format_f 1 c) @ ascii ''% '' @
                       ascii ''MEM:'' @ rjust 5 (format_f 1 m) @ ascii ''%'']))))"

text \<open>The users section: \<^verbatim>\<open>if self.info['users']\<close>, then the header and one line for
  each session.\<close>

fun report_users_loop :: "user_info list \<Rightarrow> pystr list \<Rightarrow> pystr list" where
  "report_users_loop [] report = report"
| "report_users_loop (user # rest) report =
     report_users_loop rest (report @
       [user_name user @ lit_from @ str_opt (user_host user) @ lit_since @ started user @
        ascii '')''])"

definition report_users :: "user_info list \<Rightarrow> pystr list \<Rightarrow> pystr list" where
  "report_users us report =
     (if us \<noteq> [] then report_users_loop us (report @ [lit_users_header, hr40]) else report)"

text \<open>The first lines of \<^verbatim>\<open>report\<close>: the title and the sections of the platform, the
  processor and the memory.\<close>

definition report_header :: "(rat \<Rightarrow> pystr) \<Rightarrow> SystemReport \<Rightarrow> snapshot \<Rightarrow> pystr list" where
  "report_header repr self i =
     (let report = [hr60, lit_title @ self_time self, hr60];
          pl = platform i;
          report = report @
            [lit_platform_header,
             hr40,
             lit_system @ system pl @ ascii '' '' @ release pl,
             lit_version @ version pl,
             lit_host @ host pl,
             lit_ip @ ip pl];
          c = cpu i;
          report = report @
            [lit_cpu_header,
             hr40,
             lit_cores @ str_opt_int (physical_cores c) @ lit_physical @
               str_opt_int (logical_cores c) @ lit_logical,
             lit_frequency @ freq c,
             lit_load @ repr (usage c) @ ascii ''%'',
             lit_per_core @ join (ascii '', '') (map (\<lambda>p. repr p @ ascii ''%'') (per_cpu c))];
          mem = memory i;
          report = report @
            [lit_memory_header,
             hr40,
             lit_ram @ used_ram mem @ ascii '' / '' @ total_ram mem @ ascii '' ('' @
               repr (ram_percent mem) @ ascii ''%)'',
             ascii ''SWAP: '' @ swap mem]
      in report)"

text \<open>The first lines of the network section: the totals.\<close>

definition report_network_totals :: "network_info \<Rightarrow> pystr list" where
  "report_network_totals net =
     [lit_network_header,
      hr40,
      lit_sent @ bytes_sent net @ lit_received @ bytes_recv net,
      lit_packets_sent @ str_int (packets_sent net) @ lit_packets_received @
        str_int (packets_recv net)]"

text \<open>The list \<^verbatim>\<open>report\<close> of \<^verbatim>\<open>text_report\<close>, before it is joined. Reading a key of the
  empty \<^verbatim>\<open>self.info\<close> raises \<^verbatim>\<open>KeyError\<close>.\<close>

definition text_report_lines :: "(rat \<Rightarrow> pystr) \<Rightarrow> SystemReport \<Rightarrow> error + pystr list" where
  "text_report_lines repr self =
     (case info self of
        None \<Rightarrow> Inl KeyError
      | Some i \<Rightarrow>
          (let report = report_header repr self i;
               report = report @ [lit_disks_header, hr40];
               report = report_disks repr 1 (disks i) report;
               net = network i;
               report = report @ report_network_totals net;
               report = report_interfaces (interfaces net) report;
               report = report @ [lit_processes_header, hr40]
           in bind_err (report_processes 1 (processes i) report) (\<lambda>report.
                (let report = report_users (users i) report;
                     report = report @ [lit_boot @ boot i, hr60]
                 in Inr report))))"

definition SystemReport_text_report :: "(rat \<Rightarrow> pystr) \<Rightarrow> SystemReport \<Rightarrow> error + pystr" where
  "SystemReport_text_report repr self =
     bind_err (text_report_lines repr self) (\<lambda>report. Inr (join [10] report))"

section \<open>The JSON renderer\<close>

text \<open>
  \<^verbatim>\<open>self.info\<close> as the tree of Python values that \<^verbatim>\<open>json.dumps\<close> walks: every value of
  a snapshot is \<^verbatim>\<open>None\<close>, an \<^verbatim>\<open>int\<close>, a \<^verbatim>\<open>float\<close>, a \<^verbatim>\<open>str\<close>, a list or a dictionary
  with \<^verbatim>\<open>str\<close> keys, so the fallback \<^verbatim>\<open>default=str\<close> is never called. The keys stand in
  insertion order; those of \<^verbatim>\<open>p.info\<close> in the order of the attribute list.
\<close>

datatype pyval =
    PNone
  | PInt int
  | PFloat rat
  | PStr pystr
  | PList "pyval list"
  | PDict "(pystr \<times> pyval) list"

definition opt_value :: "('a \<Rightarrow> pyval) \<Rightarrow> 'a option \<Rightarrow> pyval" where
  "opt_value f v = (case v of None \<Rightarrow> PNone | Some x \<Rightarrow> f x)"

definition platform_value :: "platform_info \<Rightarrow> pyval" where
  "platform_value pl = PDict
     [(ascii ''system'', PStr (system pl)),
      (ascii ''release'', PStr (release pl)),
      (ascii ''version'', PStr (version pl)),
      (ascii ''host'', PStr (host pl)),
      (ascii ''ip'', PStr (ip pl))]"

definition cpu_value :: "cpu_info \<Rightarrow> pyval" where
  "cpu_value c = PDict
     [(ascii ''physical_cores'', opt_value PInt (physical_cores c)),
      (ascii ''logical_cores'', opt_value PInt (logical_cores c)),
      (ascii ''freq'', PStr (freq c)),
      (ascii ''usage'', PFloat (usage c)),
      (ascii ''per_cpu'', PList (map PFloat (per_cpu c)))]"

definition memory_value :: "memory_info \<Rightarrow> pyval" where
  "memory_value m = PDict
     [(ascii ''total_ram'', PStr (total_ram m)),
      (ascii ''used_ram'', PStr (used_ram m)),
      (ascii ''ram_percent'', PFloat (ram_percent m)),
      (ascii ''swap'', PStr (swap m))]"

definition disk_value :: "disk_info \<Rightarrow> pyval" where
  "disk_value d = PDict
     ([(ascii ''device'', PStr (device d)),
       (ascii ''mountpoint'', PStr (mountpoint d)),
       (ascii ''fstype'', PStr (fstype d)),
       (ascii ''total'', PStr (total d)),
       (ascii ''used'', PStr (used d)),
       (ascii ''free'', PStr (free d)),
       (ascii ''percent'', PFloat (percent d))] @
      (case io_bytes d of
         None \<Rightarrow> []
       | Some (r, w) \<Rightarrow> [(ascii ''read_bytes'', PStr r), (ascii ''write_bytes'', PStr w)]))"

definition stats_value :: "stats_info option \<Rightarrow> pyval" where
  "stats_value s =
     (case s of
        None \<Rightarrow> PDict []
      | Some st \<Rightarrow> PDict
          [(ascii ''is_up'', PStr (is_up st)),
           (ascii ''speed'', PStr (speed st)),
           (ascii ''mtu'', PInt (mtu st))])"

definition interface_value :: "interface_info \<Rightarrow> pyval" where
  "interface_value ifc = PDict
     [(ascii ''ip_addresses'', PList (map PStr (ip_addresses ifc))),
      (ascii ''mac'', opt_value PStr (mac ifc)),
      (ascii ''stats'', stats_value (stats ifc))]"

definition network_value :: "network_info \<Rightarrow> pyval" where
  "network_value n = PDict
     [(ascii ''bytes_sent'', PStr (bytes_sent n)),
      (ascii ''bytes_recv'', PStr (bytes_recv n)),
      (ascii ''packets_sent'', PInt (packets_sent n)),
      (ascii ''packets_recv'', PInt (packets_recv n)),
      (ascii ''interfaces'', PDict (map (\<lambda>kv. (fst kv, interface_value (snd kv))) (interfaces n)))]"

definition proc_value :: "proc \<Rightarrow> pyval" where
  "proc_value p = PDict
     [(ascii ''pid'', PInt (pid p)),
      (ascii ''name'', opt_value PStr (name p)),
      (ascii ''cpu_percent'', opt_value PFloat (cpu_percent p)),
      (ascii ''memory_percent'', opt_value PFloat (memory_percent p)),
      (ascii ''memory_mb'', PFloat (memory_mb p))]"

definition user_value :: "user_info \<Rightarrow> pyval" where
  "user_value u = PDict
     [(ascii ''name'', PStr (user_name u)),
      (ascii ''host'', opt_value PStr (user_host u)),
      (ascii ''started'', PStr (started u))]"

definition sensor_value_of :: "sensor_value \<Rightarrow> pyval" where
  "sensor_value_of v =
     (case v of
        Info s \<Rightarrow> PStr s
      | Readings rs \<Rightarrow> PList (map (\<lambda>r. PDict (map (\<lambda>kv. (fst kv, PFloat (snd kv))) r)) rs))"

definition snapshot_value :: "snapshot \<Rightarrow> pyval" where
  "snapshot_value i = PDict
     [(ascii ''time'', PStr (time i)),
      (ascii ''platform'', platform_value (platform i)),
      (ascii ''cpu'', cpu_value (cpu i)),
      (ascii ''memory'', memory_value (memory i)),
      (ascii ''disks'', PList (map disk_value (disks i))),
      (ascii ''network'', network_value (network i)),
      (ascii ''processes'', PList (map proc_value (processes i))),
      (ascii ''users'', PList (map user_value (users i))),
      (ascii ''boot'', PStr (boot i)),
      (ascii ''sensors'', PDict (map (\<lambda>kv. (fst kv, sensor_value_of (snd kv))) (sensors i)))]"

text \<open>
  \<^verbatim>\<open>json.dumps(..., indent=2)\<close> with its defaults: \<^verbatim>\<open>ensure_ascii\<close> escapes every
  character outside the printable ASCII range as a backslash, the letter u and four
  lower-case hexadecimal digits (a surrogate pair above U+FFFF); items are separated by a comma and a line break, a key from
  its value by a colon and a space; an empty list or dictionary is written without a break.
\<close>

definition hex_digit :: "nat \<Rightarrow> nat" where
  "hex_digit d = (if d < 10 then 48 + d else 87 + d)"

definition u_escape :: "nat \<Rightarrow> pystr" where
  "u_escape n =
     [92, 117, hex_digit (n div 4096 mod 16), hex_digit (n div 256 mod 16),
      hex_digit (n div 16 mod 16), hex_digit (n mod 16)]"

definition escape_char :: "nat \<Rightarrow> pystr" where
  "escape_char c =
     (if c = 34 then [92, 34]
      else if c = 92 then [92, 92]
      else if c = 10 then [92, 110]
      else if c = 13 then [92, 114]
      else if c = 9 then [92, 116]
      else if c = 8 then [92, 98]
      else if c = 12 then [92, 102]
      else if 32 \<le> c \<and> c \<le> 126 then [c]
      else if c < 65536 then u_escape c
      else u_escape (55296 + (c - 65536) div 1024 mod 1024) @
           u_escape (56320 + (c - 65536) mod 1024))"

definition encode_string :: "pystr \<Rightarrow> pystr" where
  "encode_string s = [34] @ concat (map escape_char s) @ [34]"

definition newline_indent :: "nat \<Rightarrow> pystr" where
  "newline_indent lvl = [10] @ replicate (2 * lvl) 32"

fun json_encode :: "(rat \<Rightarrow> pystr) \<Rightarrow> nat \<Rightarrow> pyval \<Rightarrow> pystr" where
  "json_encode repr lvl PNone = ascii ''null''"
| "json_encode repr lvl (PInt i) = str_int i"
| "json_encode repr lvl (PFloat q) = repr q"
| "json_encode repr lvl (PStr s) = encode_string s"
| "json_encode repr lvl (PList xs) =
     (if xs = [] then ascii ''[]''
      else ascii ''['' @ newline_indent (lvl + 1) @
           join (ascii '','' @ newline_indent (lvl + 1)) (map (json_encode repr (lvl + 1)) xs) @
           newline_indent lvl @ ascii '']'')"
| "json_encode repr lvl (PDict kvs) =
     (if kvs = [] then ascii ''{}''
      else ascii ''{'' @ newline_indent (lvl + 1) @
           join (ascii '','' @ newline_indent (lvl + 1))
             (map (\<lambda>kv. encode_string (fst kv) @ ascii '': '' @
                          json_encode repr (lvl + 1) (snd kv)) kvs) @
           newline_indent lvl @ ascii ''}'')"

text \<open>\<^verbatim>\<open>json_report\<close> serialises \<^verbatim>\<open>self.info\<close>, the empty dictionary before
  \<^verbatim>\<open>collect\<close>.\<close>

definition info_value :: "SystemReport \<Rightarrow> pyval" where
  "info_value self = (case info self of None \<Rightarrow> PDict [] | Some i \<Rightarrow> snapshot_value i)"

definition SystemReport_json_report :: "(rat \<Rightarrow> pystr) \<Rightarrow> SystemReport \<Rightarrow> pystr" where
  "SystemReport_json_report repr self = json_encode repr 0 (info_value self)"

section \<open>Saving and the command line\<close>

text \<open>
  \<^verbatim>\<open>save\<close>: \<^verbatim>\<open>if not fname\<close> holds for \<^verbatim>\<open>None\<close> and for the empty string; the default
  name reads the clock again. The result is the name of the file and the content written
  to it; opening the file may fail.
\<close>

definition SystemReport_save ::
  "(rat \<Rightarrow> pystr) \<Rightarrow> SystemReport \<Rightarrow> os \<Rightarrow> pystr option \<Rightarrow> error + pystr \<times> pystr" where
  "SystemReport_save repr self os fname =
     (let fname =
            (case fname of
               None \<Rightarrow> ascii ''system_report_'' @ strftime_file (now_save os)
             | Some f \<Rightarrow>
                 if f = [] then ascii ''system_report_'' @ strftime_file (now_save os) else f);
          fname = fname @ (if fmt self = ascii ''json'' then ascii ''.json'' else ascii ''.txt'')
      in bind_err
           (if fmt self = ascii ''json'' then Inr (SystemReport_json_report repr self)
            else SystemReport_text_report repr self)
           (\<lambda>content.
              case open_w os fname of
                Some e \<Rightarrow> Inl e
              | None \<Rightarrow> Inr (fname, content)))"

text \<open>The parsed command line, and what a run does to the outside: lines printed to the
  console and files written.\<close>

record args =
  args_format :: pystr
  args_output :: "pystr option"
  args_print :: bool

datatype event = Print pystr | WriteFile pystr pystr

definition is_WriteFile :: "event \<Rightarrow> bool" where
  "is_WriteFile ev = (case ev of WriteFile f c \<Rightarrow> True | Print s \<Rightarrow> False)"

text \<open>\<^verbatim>\<open>args.output\<close> is true as a condition when it is a non-empty string.\<close>

definition truthy :: "pystr option \<Rightarrow> bool" where
  "truthy v = (case v of None \<Rightarrow> False | Some s \<Rightarrow> s \<noteq> [])"

text \<open>\<^verbatim>\<open>main\<close>: any exception of the \<^verbatim>\<open>try\<close> block is printed after the prefix, with
  \<open>str_exc\<close> for the message of the exception; what was printed before it stays printed.\<close>

definition main :: "(rat \<Rightarrow> pystr) \<Rightarrow> (error \<Rightarrow> pystr) \<Rightarrow> args \<Rightarrow> os \<Rightarrow> event list" where
  "main repr str_exc a os =
     (case SystemReport_collect (SystemReport_init (args_format a) os) os of
        Inl e \<Rightarrow> [Print (lit_error @ str_exc e)]
      | Inr report \<Rightarrow>
          (case (if args_print a then
                   bind_err
                     (if args_format a = ascii ''json'' then Inr (SystemReport_json_report repr report)
                      else SystemReport_text_report repr report)
                     (\<lambda>s. Inr [Print s])
                 else Inr []) of
             Inl e \<Rightarrow> [Print (lit_error @ str_exc e)]
           | Inr printed \<Rightarrow>
               if truthy (args_output a) \<or> \<not> args_print a then
                 (case SystemReport_save repr report os (args_output a) of
                    Inl e \<Rightarrow> printed @ [Print (lit_error @ str_exc e)]
                  | Inr (fname, content) \<Rightarrow>
                      printed @ [WriteFile fname content, Print (lit_saved @ fname)])
               else printed))"

section \<open>Notions of the properties\<close>

text \<open>The partition a disk entry was made for.\<close>

definition partition_of :: "disk_info \<Rightarrow> sdiskpart" where
  "partition_of d =
     \<lparr>part_device = device d, part_mountpoint = mountpoint d, part_fstype = fstype d\<rparr>"

text \<open>The lines of the text report for one interface and for one user session.\<close>

definition mac_lines :: "interface_info \<Rightarrow> pystr list" where
  "mac_lines ifc =
     (case mac ifc of Some m \<Rightarrow> if m \<noteq> [] then [ascii ''  MAC: '' @ m] else [] | None \<Rightarrow> [])"

definition stats_lines :: "interface_info \<Rightarrow> pystr list" where
  "stats_lines ifc =
     (case stats ifc of
        Some st \<Rightarrow> [lit_status @ is_up st @ lit_speed @ speed st]
      | None \<Rightarrow> [])"

definition user_line :: "user_info \<Rightarrow> pystr" where
  "user_line u =
     user_name u @ lit_from @ str_opt (user_host u) @ lit_since @ started u @ ascii '')''"

text \<open>A decimal digit, as a character.\<close>

definition is_digit :: "nat \<Rightarrow> bool" where
  "is_digit c = (48 \<le> c \<and> c \<le> 57)"

text \<open>The percentages of a snapshot, and the percentages the queries answered with: those
  of the processor, of the memory, of every partition whose usage was read and of every
  enumerated process.\<close>

definition opt_list :: "'a option \<Rightarrow> 'a list" where
  "opt_list v = (case v of None \<Rightarrow> [] | Some x \<Rightarrow> [x])"

definition percent_fields :: "snapshot \<Rightarrow> rat list" where
  "percent_fields i =
     [usage (cpu i)] @ per_cpu (cpu i) @ [ram_percent (memory i)] @ map percent (disks i) @
     concat (map (\<lambda>p. opt_list (cpu_percent p) @ opt_list (memory_percent p)) (processes i))"

definition os_percents :: "os \<Rightarrow> rat list" where
  "os_percents os =
     [cpu_percent_total os] @ cpu_percent_percpu os @ [vm_percent (virtual_memory os)] @
     concat (map (\<lambda>p. case disk_usage os (part_mountpoint p) of
                          Inr use \<Rightarrow> [du_percent use]
                        | Inl e \<Rightarrow> []) (disk_partitions os)) @
     concat (map (\<lambda>p. opt_list (cpu_percent p) @ opt_list (memory_percent p)) (process_iter os))"

text \<open>The sizes of a snapshot that are formatted as text, and the condition that no size
  the queries answer with is negative.\<close>

definition size_texts :: "snapshot \<Rightarrow> pystr list" where
  "size_texts i =
     [total_ram (memory i), used_ram (memory i), swap (memory i)] @
     concat (map (\<lambda>d. [total d, used d, free d] @
                        (case io_bytes d of None \<Rightarrow> [] | Some (r, w) \<Rightarrow> [r, w])) (disks i)) @
     [bytes_sent (network i), bytes_recv (network i)]"

definition os_sizes_nonneg :: "os \<Rightarrow> bool" where
  "os_sizes_nonneg os =
     (0 \<le> vm_total (virtual_memory os) \<and> 0 \<le> vm_used (virtual_memory os) \<and>
      0 \<le> sw_used (swap_memory os) \<and> 0 \<le> sw_total (swap_memory os) \<and>
      list_all (\<lambda>p. case disk_usage os (part_mountpoint p) of
                       Inr use \<Rightarrow> 0 \<le> du_total use \<and> 0 \<le> du_used use \<and> 0 \<le> du_free use
                     | Inl e \<Rightarrow> True) (disk_partitions os) \<and>
      (case disk_io_counters os of
         Inl e \<Rightarrow> True
       | Inr counters \<Rightarrow>
           list_all (\<lambda>p. case counters (io_key (part_device p)) of
                            None \<Rightarrow> True
                          | Some io \<Rightarrow> 0 \<le> io_read_bytes io \<and> 0 \<le> io_write_bytes io)
             (disk_partitions os)) \<and>
      0 \<le> nio_bytes_sent (net_io_counters os) \<and> 0 \<le> nio_bytes_recv (net_io_counters os) \<and>
      list_all (\<lambda>p. case memory_info_rss os (pid p) of Inr r \<Rightarrow> 0 \<le> r | Inl e \<Rightarrow> True)
        (process_iter os))"

text \<open>What is rendered for a format: \<^verbatim>\<open>report.json_report() if args.format == "json" else
  report.text_report()\<close>.\<close>

definition render :: "(rat \<Rightarrow> pystr) \<Rightarrow> pystr \<Rightarrow> SystemReport \<Rightarrow> error + pystr" where
  "render repr f self =
     (if f = ascii ''json'' then Inr (SystemReport_json_report repr self)
      else SystemReport_text_report repr self)"

text \<open>The extension of a format.\<close>

definition extension :: "pystr \<Rightarrow> pystr" where
  "extension f = (if f = ascii ''json'' then ascii ''.json'' else ascii ''.txt'')"

section \<open>Example hosts\<close>

text \<open>A host without sensor support, with one partition that cannot be read, one process
  that denies access, one interface that has no IP address and one user session. The clock
  moves by one second between the creation of the report and its saving.\<close>

definition host_a :: os where
  "host_a = \<lparr>
     platform_system = ascii ''Linux'',
     platform_release = ascii ''6.1'',
     platform_version = ascii ''#1 SMP'',
     gethostname = ascii ''box'',
     gethostbyname = (\<lambda>h. Inr (ascii ''127.0.1.1'')),
     cpu_freq = Some \<lparr>freq_current = 4801 / 2\<rparr>,
     cpu_count = (\<lambda>logical. if logical then Some 4 else Some 2),
     cpu_percent_total = 25 / 2,
     cpu_percent_percpu = [10, 15],
     virtual_memory = \<lparr>vm_total = 8589934592, vm_used = 268435456, vm_percent = 31 / 10\<rparr>,
     swap_memory = \<lparr>sw_used = 0, sw_total = 2147483648\<rparr>,
     disk_partitions =
       [\<lparr>part_device = ascii ''/dev/sda1'', part_mountpoint = ascii ''/'', part_fstype = ascii ''ext4''\<rparr>,
        \<lparr>part_device = ascii ''/dev/sr0'', part_mountpoint = ascii ''/mnt/cd'', part_fstype = ascii ''iso9660''\<rparr>,
        \<lparr>part_device = ascii ''sdb1'', part_mountpoint = ascii ''/data'', part_fstype = ascii ''xfs''\<rparr>],
     disk_usage = (\<lambda>m. if m = ascii ''/mnt/cd'' then Inl PermissionError
        else Inr \<lparr>du_total = 107374182400, du_used = 53687091200, du_free = 53687091200, du_percent = 50\<rparr>),
     disk_io_counters = Inr (\<lambda>k. if k = ascii ''sdb1'' then Some \<lparr>io_read_bytes = 1048576, io_write_bytes = 3145728\<rparr> else None),
     net_io_counters = \<lparr>nio_bytes_sent = 1048576, nio_bytes_recv = 2097152, nio_packets_sent = 10, nio_packets_recv = 20\<rparr>,
     net_if_addrs =
       [(ascii ''lo'', [\<lparr>family = AF_INET, address = ascii ''127.0.0.1'', netmask = Some (ascii ''255.0.0.0'')\<rparr>,
                        \<lparr>family = AF_INET6, address = ascii ''::1'', netmask = None\<rparr>,
                        \<lparr>family = AF_INET, address = ascii ''127.0.0.2'', netmask = None\<rparr>,
                        \<lparr>family = AF_LINK, address = ascii ''00:00:00:00:00:00'', netmask = None\<rparr>]),
        (ascii ''tun0'', [\<lparr>family = AF_LINK, address = ascii ''aa:bb'', netmask = None\<rparr>])],
     net_if_stats = (\<lambda>i. if i = ascii ''lo'' then Some \<lparr>isup = True, nic_speed = 0, nic_mtu = 65536\<rparr> else None),
     process_iter =
      [\<lparr>pid = 1, name = Some (ascii ''init''), cpu_percent = Some 0, memory_percent = Some (1 / 2)\<rparr>,
       \<lparr>pid = 7, name = Some (ascii ''sshd''), cpu_percent = Some 0, memory_percent = Some 3\<rparr>,
       \<lparr>pid = 9, name = None, cpu_percent = None, memory_percent = None\<rparr>,
       \<lparr>pid = 12, name = Some (ascii ''bash''), cpu_percent = Some 1, memory_percent = Some (1 / 2)\<rparr>],
     memory_info_rss = (\<lambda>p. if p = 9 then Inl AccessDenied else Inr (p * 1048576)),
     psutil_users = [\<lparr>su_name = ascii ''alice'', su_host = Some (ascii ''10.0.0.5''), su_started = 1000\<rparr>],
     boot_time = 500,
     sensors_temperatures = Inl AttributeError,
     fromtimestamp = (\<lambda>t. \<lparr>year = 2024, month = 1, day = 2, hour = 3, minute = 4, second = nat \<lfloor>t / 100\<rfloor>\<rparr>),
     now_init = \<lparr>year = 2024, month = 1, day = 2, hour = 9, minute = 30, second = 5\<rparr>,
     now_save = \<lparr>year = 2024, month = 1, day = 2, hour = 9, minute = 30, second = 6\<rparr>,
     open_w = (\<lambda>f. None)\<rparr>"



text \<open>A stand-in for \<^verbatim>\<open>str\<close> of a \<^verbatim>\<open>float\<close> in the examples: one decimal.\<close>

definition repr1 :: "rat \<Rightarrow> pystr" where
  "repr1 q = format_f 1 q"

text \<open>The snapshot that \<^verbatim>\<open>collect\<close> takes on the first host, and the report object
  that holds it.\<close>

definition snap_a :: snapshot where
  "snap_a = \<lparr>
     time = ascii ''2024-01-02 09:30:05'',
     platform = \<lparr>system = ascii ''Linux'', release = ascii ''6.1'', version = ascii ''#1 SMP'',
                  host = ascii ''box'', ip = ascii ''127.0.1.1''\<rparr>,
     cpu = \<lparr>physical_cores = Some 2, logical_cores = Some 4, freq = ascii ''2400 MHz'',
             usage = 25 / 2, per_cpu = [10, 15]\<rparr>,
     memory = \<lparr>total_ram = ascii ''8.0 GB'', used_ram = ascii ''0.2 GB'', ram_percent = 31 / 10,
                swap = ascii ''0.0/2.0 GB''\<rparr>,
     disks =
       [\<lparr>device = ascii ''/dev/sda1'', mountpoint = ascii ''/'', fstype = ascii ''ext4'',
          total = ascii ''100.0 GB'', used = ascii ''50.0 GB'', free = ascii ''50.0 GB'',
          percent = 50, io_bytes = None\<rparr>,
        \<lparr>device = ascii ''sdb1'', mountpoint = ascii ''/data'', fstype = ascii ''xfs'',
          total = ascii ''100.0 GB'', used = ascii ''50.0 GB'', free = ascii ''50.0 GB'',
          percent = 50, io_bytes = Some (ascii ''1.0 MB'', ascii ''3.0 MB'')\<rparr>],
     network = \<lparr>bytes_sent = ascii ''1.0 MB'', bytes_recv = ascii ''2.0 MB'',
                 packets_sent = 10, packets_recv = 20,
                 interfaces =
                   [(ascii ''lo'',
                     \<lparr>ip_addresses = [ascii ''IPv4: 127.0.0.1/255.0.0.0'', ascii ''IPv6: ::1'',
                                       ascii ''IPv4: 127.0.0.2/None''],
                       mac = Some (ascii ''00:00:00:00:00:00''),
                       stats = Some \<lparr>is_up = ascii ''UP'', speed = ascii ''N/A'', mtu = 65536\<rparr>\<rparr>),
                    (ascii ''tun0'',
                     \<lparr>ip_addresses = [], mac = Some (ascii ''aa:bb''), stats = None\<rparr>)]\<rparr>,
     processes =
       [\<lparr>pid = 7, name = Some (ascii ''sshd''), cpu_percent = Some 0, memory_percent = Some 3,
          memory_mb = 7\<rparr>,
        \<lparr>pid = 1, name = Some (ascii ''init''), cpu_percent = Some 0,
          memory_percent = Some (1 / 2), memory_mb = 1\<rparr>,
        \<lparr>pid = 12, name = Some (ascii ''bash''), cpu_percent = Some 1,
          memory_percent = Some (1 / 2), memory_mb = 12\<rparr>],
     users = [\<lparr>user_name = ascii ''alice'', user_host = Some (ascii ''10.0.0.5''),
               started = ascii ''03:04:10''\<rparr>],
     boot = ascii ''2024-01-02 03:04:05'',
     sensors = [(ascii ''info'', Info (ascii ''N/A''))]\<rparr>"

definition report_a :: SystemReport where
  "report_a = \<lparr>fmt = ascii ''text'', info = Some snap_a, self_time = time snap_a\<rparr>"

text \<open>The first host with one process that keeps several cores busy: psutil reports its
  processor share as a percentage of one core.\<close>

definition host_d :: os where
  "host_d = host_a\<lparr>process_iter :=
     [\<lparr>pid = 42, name = Some (ascii ''ffmpeg''), cpu_percent = Some 250,
       memory_percent = Some 5\<rparr>]\<rparr>"

text \<open>Command lines: no flag, \<^verbatim>\<open>--print\<close> alone, \<^verbatim>\<open>--print\<close> with an \<^verbatim>\<open>--output\<close> whose value
  is the empty string, and \<^verbatim>\<open>--print --format json --output out\<close>.\<close>

definition args_bare :: args where
  "args_bare = \<lparr>args_format = ascii ''text'', args_output = None, args_print = False\<rparr>"

definition args_print_only :: args where
  "args_print_only = \<lparr>args_format = ascii ''text'', args_output = None, args_print = True\<rparr>"

definition args_print_empty_output :: args where
  "args_print_empty_output =
     \<lparr>args_format = ascii ''text'', args_output = Some [], args_print = True\<rparr>"

definition args_print_json_out :: args where
  "args_print_json_out =
     \<lparr>args_format = ascii ''json'', args_output = Some (ascii ''out''), args_print = True\<rparr>"

text \<open>A stand-in for the message of an exception.\<close>

definition str_exc_a :: "error \<Rightarrow> pystr" where
  "str_exc_a e = ascii ''error''"

section \<open>The first example host, evaluated\<close>

text \<open>Every collector is evaluated on the first host; together they give the snapshot
  \<open>snap_a\<close>.\<close>

lemma host_a_fields:
  "platform_system host_a = ascii ''Linux''"
  "platform_release host_a = ascii ''6.1''"
  "platform_version host_a = ascii ''#1 SMP''"
  "gethostname host_a = ascii ''box''"
  "gethostbyname host_a = (\<lambda>h. Inr (ascii ''127.0.1.1''))"
  "cpu_freq host_a = Some \<lparr>freq_current = 4801 / 2\<rparr>"
  "cpu_count host_a = (\<lambda>logical. if logical then Some 4 else Some 2)"
  "cpu_percent_total host_a = 25 / 2"
  "cpu_percent_percpu host_a = [10, 15]"
  "virtual_memory host_a = \<lparr>vm_total = 8589934592, vm_used = 268435456, vm_percent = 31 / 10\<rparr>"
  "swap_memory host_a = \<lparr>sw_used = 0, sw_total = 2147483648\<rparr>"
  "net_io_counters host_a = \<lparr>nio_bytes_sent = 1048576, nio_bytes_recv = 2097152, nio_packets_sent = 10, nio_packets_recv = 20\<rparr>"
  "boot_time host_a = 500"
  "sensors_temperatures host_a = Inl AttributeError"
  "now_init host_a = \<lparr>year = 2024, month = 1, day = 2, hour = 9, minute = 30, second = 5\<rparr>"
  "now_save host_a = \<lparr>year = 2024, month = 1, day = 2, hour = 9, minute = 30, second = 6\<rparr>"
  "open_w host_a = (\<lambda>f. None)"
  "fromtimestamp host_a = (\<lambda>t. \<lparr>year = 2024, month = 1, day = 2, hour = 3, minute = 4, second = nat \<lfloor>t / 100\<rfloor>\<rparr>)"
  "psutil_users host_a = [\<lparr>su_name = ascii ''alice'', su_host = Some (ascii ''10.0.0.5''), su_started = 1000\<rparr>]"
  by (simp_all add: host_a_def)


lemma floor_2400: "\<lfloor>4801 / 2 :: rat\<rfloor> = 2400"
  by (rule floor_unique) simp_all

lemma round_2400: "round_half_even (4801 / 2) = 2400"
  by (simp add: round_half_even_def Let_def floor_2400)

lemma str_nat_2400: "str_nat 2400 = ascii ''2400''"
  by (simp add: str_nat.simps [of 2400] str_nat.simps [of 240] str_nat.simps [of 24]
      str_nat.simps [of 2] ascii_def)

lemma format_f_2400: "format_f 0 (4801 / 2) = ascii ''2400''"
  by (simp add: format_f_def Let_def round_2400 str_nat_2400)

lemma c_platform: "SystemReport_platform host_a = Inr (platform snap_a)"
  by (simp add: SystemReport_platform_def host_a_fields bind_err_def snap_a_def)

lemma c_cpu: "SystemReport_cpu host_a = cpu snap_a"
  by (simp add: SystemReport_cpu_def host_a_fields format_f_2400 snap_a_def ascii_def)

lemma c_memory: "SystemReport_memory host_a = memory snap_a"
  by code_simp

lemma c_disks: "SystemReport_disks host_a = Inr (disks snap_a)"
  by code_simp

lemma c_network: "SystemReport_network host_a = network snap_a"
  by code_simp

lemma c_processes: "SystemReport_processes host_a = Inr (processes snap_a)"
  by code_simp

lemma c_users: "SystemReport_users host_a = users snap_a"
  by code_simp

lemma c_boot: "SystemReport_boot host_a = boot snap_a"
  by code_simp

lemma c_sensors: "SystemReport_sensors host_a = Inr (sensors snap_a)"
  by (simp add: SystemReport_sensors_def host_a_fields snap_a_def)

lemma c_time: "strftime_Ymd_HMS (now_init host_a) = time snap_a"
  by code_simp

lemma snap_a_eta: "\<lparr>time = time snap_a, platform = platform snap_a, cpu = cpu snap_a,
    memory = memory snap_a, disks = disks snap_a, network = network snap_a,
    processes = processes snap_a, users = users snap_a, boot = boot snap_a,
    sensors = sensors snap_a\<rparr> = snap_a"
  by simp

lemma collect_host_a:
  "SystemReport_collect (SystemReport_init f host_a) host_a =
     Inr \<lparr>fmt = f, info = Some snap_a, self_time = time snap_a\<rparr>"
  unfolding SystemReport_collect_def collect_info_def SystemReport_init_def bind_err_def
    c_platform c_cpu c_memory c_disks c_network c_processes c_users c_boot c_sensors c_time
  by (simp add: snap_a_eta)

section \<open>Properties of the process collector\<close>

lemma processes_loop_kept:
  "processes_loop rss ps acc = Inr out \<Longrightarrow>
   map info_of out = map info_of acc @ filter (\<lambda>p. \<not> isl (rss (pid p))) ps"
proof (induction ps arbitrary: acc)
  case Nil
  then show ?case by simp
next
  case (Cons p ps)
  show ?case
  proof (cases "rss (pid p)")
    case (Inl e)
    with Cons.prems have "processes_loop rss ps acc = Inr out"
      by (simp split: if_splits)
    from Cons.IH [OF this] Inl show ?thesis by simp
  next
    case (Inr r)
    with Cons.prems
    have "processes_loop rss ps (acc @ [add_memory_mb p (of_int r / 1024 ^ 2)]) = Inr out"
      by simp
    from Cons.IH [OF this] Inr show ?thesis
      by (simp add: info_of_def add_memory_mb_def)
  qed
qed

lemma sort_by_memory_sorted:
  assumes "sort_by_memory procs = Inr out"
  shows "sorted_wrt (\<lambda>a b. \<exists>x y. memory_percent a = Some x \<and> memory_percent b = Some y \<and> y \<le> x) out"
proof (cases "length procs < 2")
  case True
  with assms have "out = procs" by (simp add: sort_by_memory_def)
  with True have "length out < 2" by simp
  then show ?thesis
    by (cases out rule: list.exhaust; cases "tl out"; auto)
next
  case False
  with assms have some: "\<forall>x \<in> set procs. memory_percent x \<noteq> None"
    and out: "out = sort_key (\<lambda>x. - mem_key x) procs"
    by (auto simp: sort_by_memory_def list_ex_iff split: if_splits)
  have "sorted (map (\<lambda>x. - mem_key x) out)"
    unfolding out by (rule sorted_sort_key)
  then have "sorted_wrt (\<lambda>a b. - mem_key a \<le> - mem_key b) out"
    by (simp add: sorted_map)
  moreover have "set out = set procs"
    unfolding out by simp
  moreover have "memory_percent x = Some (mem_key x)" if "x \<in> set procs" for x
    using some that by (cases "memory_percent x") (auto simp: mem_key_def)
  ultimately show ?thesis
    by (elim sorted_wrt_mono_rel [rotated]) auto
qed

lemma sort_by_memory_stable:
  assumes "sort_by_memory procs = Inr out"
  shows "filter (\<lambda>p. memory_percent p = k) out = filter (\<lambda>p. memory_percent p = k) procs"
proof (cases "length procs < 2")
  case True
  with assms show ?thesis by (simp add: sort_by_memory_def)
next
  case False
  with assms have some: "\<forall>x \<in> set procs. memory_percent x \<noteq> None"
    and out: "out = sort_key (\<lambda>x. - mem_key x) procs"
    by (auto simp: sort_by_memory_def list_ex_iff split: if_splits)
  show ?thesis
  proof (cases k)
    case None
    have "filter (\<lambda>p. memory_percent p = None) procs = []"
      using some by (simp add: filter_empty_conv)
    moreover have "filter (\<lambda>p. memory_percent p = None) out = []"
      using some unfolding out by (simp add: filter_empty_conv)
    ultimately show ?thesis using None by simp
  next
    case (Some m)
    have key: "memory_percent x = Some (mem_key x)" if "x \<in> set procs" for x
      using some that by (cases "memory_percent x") (auto simp: mem_key_def)
    have eq: "\<And>xs. set xs \<subseteq> set procs \<Longrightarrow>
        filter (\<lambda>p. memory_percent p = Some m) xs = filter (\<lambda>p. - mem_key p = - m) xs"
      by (intro filter_cong refl) (auto dest!: key)
    have "filter (\<lambda>p. memory_percent p = Some m) out = filter (\<lambda>p. - mem_key p = - m) out"
      by (rule eq) (simp add: out)
    also have "\<dots> = filter (\<lambda>p. - mem_key p = - m) procs"
      unfolding out by (rule sort_key_stable)
    also have "\<dots> = filter (\<lambda>p. memory_percent p = Some m) procs"
      by (rule eq [symmetric]) simp
    finally show ?thesis using Some by simp
  qed
qed

text \<open>
  C1. Every list the process collector returns has at most 8 entries, is sorted by memory
  percentage in descending order, and keeps entries of equal memory percentage in the order
  of the enumeration: for each memory percentage, the entries of the result that carry it
  are an initial part of the enumerated processes that carry it (those whose lookup
  raised are skipped).
\<close>

theorem processes_top8_sorted_stable:
  assumes "SystemReport_processes os = Inr out"
  shows "length out \<le> 8 \<and>
    sorted_wrt (\<lambda>a b. \<exists>x y. memory_percent a = Some x \<and> memory_percent b = Some y \<and> y \<le> x) out \<and>
    (\<forall>k. prefix (map info_of (filter (\<lambda>p. memory_percent p = k) out))
       (filter (\<lambda>p. memory_percent p = k)
          (filter (\<lambda>p. \<not> isl (memory_info_rss os (pid p))) (process_iter os))))"
proof -
  from assms obtain procs sorted_procs where
    loop: "processes_loop (memory_info_rss os) (process_iter os) [] = Inr procs"
    and srt: "sort_by_memory procs = Inr sorted_procs"
    and out: "out = take 8 sorted_procs"
    by (auto simp: SystemReport_processes_def bind_err_def split: sum.splits)
  have len: "length out \<le> 8"
    by (simp add: out)
  have sorted: "sorted_wrt (\<lambda>a b. \<exists>x y. memory_percent a = Some x \<and> memory_percent b = Some y \<and> y \<le> x) out"
    unfolding out by (rule sorted_wrt_take) (rule sort_by_memory_sorted [OF srt])
  have kept: "map info_of procs = filter (\<lambda>p. \<not> isl (memory_info_rss os (pid p))) (process_iter os)"
    using processes_loop_kept [OF loop] by simp
  have stable: "prefix (map info_of (filter (\<lambda>p. memory_percent p = k) out))
       (filter (\<lambda>p. memory_percent p = k)
          (filter (\<lambda>p. \<not> isl (memory_info_rss os (pid p))) (process_iter os)))" for k
  proof -
    have "prefix (filter (\<lambda>p. memory_percent p = k) out) (filter (\<lambda>p. memory_percent p = k) sorted_procs)"
      unfolding out by (intro filter_mono_prefix take_is_prefix)
    then have "prefix (filter (\<lambda>p. memory_percent p = k) out) (filter (\<lambda>p. memory_percent p = k) procs)"
      by (simp add: sort_by_memory_stable [OF srt])
    then have "prefix (map info_of (filter (\<lambda>p. memory_percent p = k) out))
        (map info_of (filter (\<lambda>p. memory_percent p = k) procs))"
      by (rule map_mono_prefix)
    also have "map info_of (filter (\<lambda>p. memory_percent p = k) procs)
        = filter (\<lambda>p. memory_percent p = k) (map info_of procs)"
      by (simp add: filter_map comp_def info_of_def)
    finally show ?thesis by (simp add: kept)
  qed
  from len sorted stable show ?thesis by blast
qed

theorem processes_top8_sorted_stable_witness:
  "SystemReport_processes host_a = Inr
     [\<lparr>pid = 7, name = Some (ascii ''sshd''), cpu_percent = Some 0, memory_percent = Some 3,
        memory_mb = 7\<rparr>,
      \<lparr>pid = 1, name = Some (ascii ''init''), cpu_percent = Some 0,
        memory_percent = Some (1 / 2), memory_mb = 1\<rparr>,
      \<lparr>pid = 12, name = Some (ascii ''bash''), cpu_percent = Some 1,
        memory_percent = Some (1 / 2), memory_mb = 12\<rparr>] \<and>
   prefix
     (map info_of (filter (\<lambda>p. memory_percent p = Some (1 / 2))
        [\<lparr>pid = 7, name = Some (ascii ''sshd''), cpu_percent = Some 0, memory_percent = Some 3,
           memory_mb = 7\<rparr>,
         \<lparr>pid = 1, name = Some (ascii ''init''), cpu_percent = Some 0,
           memory_percent = Some (1 / 2), memory_mb = 1\<rparr>,
         \<lparr>pid = 12, name = Some (ascii ''bash''), cpu_percent = Some 1,
           memory_percent = Some (1 / 2), memory_mb = 12\<rparr>]))
     (filter (\<lambda>p. memory_percent p = Some (1 / 2))
        (filter (\<lambda>p. \<not> isl (memory_info_rss host_a (pid p))) (process_iter host_a)))"
proof -
  have run: "SystemReport_processes host_a = Inr
     [\<lparr>pid = 7, name = Some (ascii ''sshd''), cpu_percent = Some 0, memory_percent = Some 3,
        memory_mb = 7\<rparr>,
      \<lparr>pid = 1, name = Some (ascii ''init''), cpu_percent = Some 0,
        memory_percent = Some (1 / 2), memory_mb = 1\<rparr>,
      \<lparr>pid = 12, name = Some (ascii ''bash''), cpu_percent = Some 1,
        memory_percent = Some (1 / 2), memory_mb = 12\<rparr>]"
    by code_simp
  from processes_top8_sorted_stable [OF run] run show ?thesis
    by blast
qed

section \<open>Properties of the disk collector\<close>

lemma disks_loop_kept:
  assumes "\<forall>p \<in> set parts. \<forall>e. disk_usage os (part_mountpoint p) = Inl e \<longrightarrow>
             e = PermissionError \<or> is_OSError e"
  shows "\<exists>out. disks_loop os parts acc = Inr out \<and>
           map partition_of out =
           map partition_of acc @ filter (\<lambda>p. \<not> isl (disk_usage os (part_mountpoint p))) parts"
  using assms
proof (induction parts arbitrary: acc)
  case Nil
  then show ?case by simp
next
  case (Cons p parts)
  then have rest: "\<forall>p \<in> set parts. \<forall>e. disk_usage os (part_mountpoint p) = Inl e \<longrightarrow>
             e = PermissionError \<or> is_OSError e"
    by simp
  show ?case
  proof (cases "disk_usage os (part_mountpoint p)")
    case (Inl e)
    with Cons.prems have "e = PermissionError \<or> is_OSError e" by simp
    with Inl Cons.IH [OF rest, of acc] show ?thesis by auto
  next
    case (Inr use)
    let ?d = "disk_entry os p use"
    have step: "disks_loop os (p # parts) acc = disks_loop os parts (acc @ [?d])"
      using Inr by simp
    have orig: "partition_of ?d = p"
      by (cases p) (simp add: partition_of_def disk_entry_def)
    from Cons.IH [OF rest, of "acc @ [?d]"] show ?thesis
      unfolding step using Inr by (auto simp: orig)
  qed
qed

text \<open>
  C4. Where every exception of a usage lookup is a permission or operating-system error,
  the disk collector returns a list (the error does not leave the collector), and the
  entries of the list are, in order, the partitions whose lookup did not raise: a partition
  whose lookup raised has no entry, every other partition has its entry.
\<close>

theorem disks_skip_unreadable:
  assumes "\<forall>p \<in> set (disk_partitions os). \<forall>e. disk_usage os (part_mountpoint p) = Inl e \<longrightarrow>
             e = PermissionError \<or> is_OSError e"
  shows "\<exists>ds. SystemReport_disks os = Inr ds \<and>
           map partition_of ds =
           filter (\<lambda>p. \<not> isl (disk_usage os (part_mountpoint p))) (disk_partitions os) \<and>
           (\<forall>d \<in> set ds. \<not> isl (disk_usage os (mountpoint d)))"
proof -
  from disks_loop_kept [OF assms, of "[]"] obtain ds where
    run: "SystemReport_disks os = Inr ds" and
    kept: "map partition_of ds =
      filter (\<lambda>p. \<not> isl (disk_usage os (part_mountpoint p))) (disk_partitions os)"
    by (auto simp: SystemReport_disks_def)
  have "\<not> isl (disk_usage os (mountpoint d))" if "d \<in> set ds" for d
  proof -
    from that have "partition_of d \<in> set (map partition_of ds)" by simp
    then have "\<not> isl (disk_usage os (part_mountpoint (partition_of d)))"
      unfolding kept by simp
    then show ?thesis by (simp add: partition_of_def)
  qed
  with run kept show ?thesis by blast
qed

theorem disks_skip_unreadable_witness:
  "\<exists>ds. SystemReport_disks host_a = Inr ds \<and>
     map partition_of ds =
       [\<lparr>part_device = ascii ''/dev/sda1'', part_mountpoint = ascii ''/'', part_fstype = ascii ''ext4''\<rparr>,
        \<lparr>part_device = ascii ''sdb1'', part_mountpoint = ascii ''/data'', part_fstype = ascii ''xfs''\<rparr>]"
proof -
  have hyp: "\<forall>p \<in> set (disk_partitions host_a). \<forall>e.
      disk_usage host_a (part_mountpoint p) = Inl e \<longrightarrow> e = PermissionError \<or> is_OSError e"
    by (simp add: host_a_def ascii_def)
  have kept: "filter (\<lambda>p. \<not> isl (disk_usage host_a (part_mountpoint p))) (disk_partitions host_a) =
       [\<lparr>part_device = ascii ''/dev/sda1'', part_mountpoint = ascii ''/'', part_fstype = ascii ''ext4''\<rparr>,
        \<lparr>part_device = ascii ''sdb1'', part_mountpoint = ascii ''/data'', part_fstype = ascii ''xfs''\<rparr>]"
    by (simp add: host_a_def ascii_def)
  from disks_skip_unreadable [OF hyp] obtain ds where
    "SystemReport_disks host_a = Inr ds" and
    "map partition_of ds =
       filter (\<lambda>p. \<not> isl (disk_usage host_a (part_mountpoint p))) (disk_partitions host_a)"
    by blast
  then show ?thesis
    unfolding kept by (intro exI [of _ ds]) simp
qed

section \<open>Properties of the sensor collector\<close>










section \<open>Properties of the text renderer\<close>

lemma report_interfaces_append:
  "report_interfaces ifs report =
     report @ concat (map (\<lambda>(iface, ifc).
         [[10] @ iface @ ascii '':''] @ mac_lines ifc @
         map (\<lambda>a. ascii ''  '' @ a) (take 2 (ip_addresses ifc)) @ stats_lines ifc)
       (filter (\<lambda>(iface, ifc). ip_addresses ifc \<noteq> []) ifs))"
proof (induction ifs arbitrary: report)
  case Nil
  then show ?case by simp
next
  case (Cons x ifs)
  obtain iface ifc where x: "x = (iface, ifc)" by (cases x)
  show ?case
    unfolding x
    by (simp add: Cons.IH Let_def mac_lines_def stats_lines_def split: option.splits)
qed

lemma report_processes_append:
  "report_processes i ps (a @ b) = bind_err (report_processes i ps b) (\<lambda>r. Inr (a @ r))"
proof (induction ps arbitrary: i b)
  case Nil
  then show ?case by (simp add: bind_err_def)
next
  case (Cons p ps)
  show ?case
    by (simp add: bind_err_def Cons.IH split: option.splits)
qed

lemma report_users_loop_append:
  "report_users_loop us report = report @ map user_line us"
  by (induction us arbitrary: report) (simp_all add: user_line_def)

lemma report_users_append:
  "report_users us report =
     report @ (if us = [] then [] else [lit_users_header, hr40] @ map user_line us)"
  by (simp add: report_users_def report_users_loop_append)

lemma report_header_frame:
  "report_header repr (self\<lparr>info := x\<rparr>) (i\<lparr>network := n\<rparr>) = report_header repr self i"
  "report_header repr (self\<lparr>info := x\<rparr>) (i\<lparr>users := u\<rparr>) = report_header repr self i"
  by (simp_all add: report_header_def)

text \<open>
  C10. In every text report the lines of the interfaces stand between the network totals
  and the process section, and they are the blocks of those interfaces whose list of IP
  addresses is not empty, in order: the name, the MAC address if there is one, the first
  two IP addresses at most, and the status if there is one. What stands before and after
  is the report of the same snapshot without any interface. The snapshot keeps every
  address.
\<close>

theorem text_report_interfaces:
  assumes "info self = Some i" and "text_report_lines repr self = Inr ls"
  shows "\<exists>pre post.
     ls = pre @
       concat (map (\<lambda>(iface, ifc).
           [[10] @ iface @ ascii '':''] @ mac_lines ifc @
           map (\<lambda>a. ascii ''  '' @ a) (take 2 (ip_addresses ifc)) @ stats_lines ifc)
         (filter (\<lambda>(iface, ifc). ip_addresses ifc \<noteq> []) (interfaces (network i)))) @
       post \<and>
     text_report_lines repr
       (self\<lparr>info := Some (i\<lparr>network := (network i)\<lparr>interfaces := []\<rparr>\<rparr>)\<rparr>) = Inr (pre @ post)"
proof -
  define pre where "pre =
    report_disks repr 1 (disks i) (report_header repr self i @ [lit_disks_header, hr40]) @
    report_network_totals (network i)"
  define mid where "mid = concat (map (\<lambda>(iface, ifc).
           [[10] @ iface @ ascii '':''] @ mac_lines ifc @
           map (\<lambda>a. ascii ''  '' @ a) (take 2 (ip_addresses ifc)) @ stats_lines ifc)
         (filter (\<lambda>(iface, ifc). ip_addresses ifc \<noteq> []) (interfaces (network i))))"
  define tail where "tail = (if users i = [] then []
      else [lit_users_header, hr40] @ map user_line (users i)) @ [lit_boot @ boot i, hr60]"
  have step: "text_report_lines repr self =
      bind_err (report_processes 1 (processes i) ((pre @ mid) @ [lit_processes_header, hr40]))
        (\<lambda>report. Inr (report_users (users i) report @ [lit_boot @ boot i, hr60]))"
    using assms(1)
    by (simp add: text_report_lines_def Let_def report_interfaces_append pre_def mid_def)
  have full: "text_report_lines repr self =
      bind_err (report_processes 1 (processes i) [lit_processes_header, hr40])
        (\<lambda>r. Inr (pre @ mid @ r @ tail))"
    unfolding step report_processes_append
    by (simp add: bind_err_def report_users_append tail_def split: sum.splits)
  have step0: "text_report_lines repr
       (self\<lparr>info := Some (i\<lparr>network := (network i)\<lparr>interfaces := []\<rparr>\<rparr>)\<rparr>) =
      bind_err (report_processes 1 (processes i) (pre @ [lit_processes_header, hr40]))
        (\<lambda>report. Inr (report_users (users i) report @ [lit_boot @ boot i, hr60]))"
    by (simp add: text_report_lines_def Let_def report_header_frame report_network_totals_def
        pre_def)
  have none: "text_report_lines repr
       (self\<lparr>info := Some (i\<lparr>network := (network i)\<lparr>interfaces := []\<rparr>\<rparr>)\<rparr>) =
      bind_err (report_processes 1 (processes i) [lit_processes_header, hr40])
        (\<lambda>r. Inr (pre @ r @ tail))"
    unfolding step0 report_processes_append
    by (simp add: bind_err_def report_users_append tail_def split: sum.splits)
  from assms(2) obtain r where
    r: "report_processes 1 (processes i) [lit_processes_header, hr40] = Inr r"
    and ls: "ls = pre @ mid @ r @ tail"
    unfolding full by (auto simp: bind_err_def split: sum.splits)
  have "text_report_lines repr
       (self\<lparr>info := Some (i\<lparr>network := (network i)\<lparr>interfaces := []\<rparr>\<rparr>)\<rparr>) =
      Inr (pre @ r @ tail)"
    unfolding none using r by (simp add: bind_err_def)
  with ls show ?thesis
    unfolding mid_def by blast
qed

end
